theory Spec2Isabelle
  imports Main
begin

section \<open>XFB start-up (src/main.cpp): the toolkit as seen by \<open>main\<close>\<close>

text \<open>
  \<open>main\<close> is straight-line code over the Qt toolkit. Everything the toolkit answers
  (where the configuration lives, whether a directory could be made, whether a copy or a
  translation load succeeded, what a settings file holds) is a field of the record
  \<open>platform\<close>; everything \<open>main\<close> does to the outside is a field of \<open>state\<close>, and
  each call is also appended to \<open>trace\<close>, in program order.
\<close>

datatype os_kind = Q_OS_MAC | Q_OS_LINUX | Q_OS_WIN | Q_OS_OTHER

datatype Permission =
  ReadOwner | WriteOwner | ExeOwner | ReadUser | WriteUser | ExeUser
| ReadGroup | WriteGroup | ExeGroup | ReadOther | WriteOther | ExeOther

record qfile =
  contents :: string
  permissions :: "Permission set"

datatype QVariant = VString string | VBool bool

datatype AlignmentFlag = AlignBottom | AlignHCenter

datatype QColor = QColor nat nat nat | Qt_red | Qt_darkBlue

datatype ColorRole =
  WindowText | Button | Light | Midlight | Dark | Mid | Text | BrightText | ButtonText
| Base | Window | Shadow | Highlight | HighlightedText | Link | LinkVisited
| AlternateBase | NoRole | ToolTipBase | ToolTipText | PlaceholderText | Accent

text \<open>A palette holds the colours set explicitly, by role; a role never set is absent.\<close>

type_synonym QPalette = "(ColorRole \<times> QColor) list"

datatype severity = Debug | Info | Warning | Critical

datatype window_state = NotConstructed | Hidden | ShownNormal | ShownFullScreen

datatype event =
  Putenv string string
| SetDesktopSettingsAware bool
| NewQApplication
| SetWindowIcon string
| SetApplicationName string
| SetOrganizationName string
| SetStyle string
| NewSplash string
| SplashShow
| SplashMessage string "AlignmentFlag list" QColor
| ProcessEvents
| SplashHide
| MessageBoxCritical string string
| Log severity "string list"
| Mkpath string
| Copy string string
| SetPermissions string "Permission set"
| OpenSettings string
| TranslatorLoad string
| InstallTranslator string
| Msleep nat
| SetPalette QPalette
| OpenStyleFile string
| SetStyleSheet string
| CloseStyleFile string
| NewPlayer
| ShowWindowFullScreen
| ShowWindow
| SplashFinish
| Exec

record platform =
  os :: os_kind
  writableLocation :: string
  mkpathOk :: "string \<Rightarrow> bool"
  copyResult :: "string \<Rightarrow> string \<Rightarrow> qfile option"
  setPermissionsOk :: "string \<Rightarrow> bool"
  iniParse :: "string \<Rightarrow> (string \<rightharpoonup> string)"
  stringToBool :: "string \<Rightarrow> bool"
  resourceExists :: "string \<Rightarrow> bool"
  translatorLoad :: "string \<Rightarrow> bool"
  readText :: "string \<Rightarrow> string option"
  execResult :: int

record state =
  dirs :: "string set"
  files :: "string \<rightharpoonup> qfile"
  splashVisible :: bool
  translators :: "string list"
  appPalette :: "QPalette option"
  appStyleSheet :: "string option"
  window :: window_state
  trace :: "event list"

text \<open>The state of a process that has just started, over a given file system.\<close>

definition fresh :: "string set \<Rightarrow> (string \<rightharpoonup> qfile) \<Rightarrow> state" where
  "fresh d f = \<lparr>dirs = d, files = f, splashVisible = False, translators = [],
     appPalette = None, appStyleSheet = None, window = NotConstructed, trace = []\<rparr>"

subsection \<open>Toolkit calls\<close>

definition emit :: "event \<Rightarrow> state \<Rightarrow> state" where
  "emit e s = s\<lparr>trace := trace s @ [e]\<rparr>"

text \<open>Statements in sequence, first to last.\<close>

definition seq :: "(state \<Rightarrow> state) list \<Rightarrow> state \<Rightarrow> state" where
  "seq fs s = foldl (\<lambda>t f. f t) s fs"

definition qputenv :: "string \<Rightarrow> string \<Rightarrow> state \<Rightarrow> state" where
  "qputenv n v = emit (Putenv n v)"

definition qlog :: "severity \<Rightarrow> string list \<Rightarrow> state \<Rightarrow> state" where
  "qlog sev parts = emit (Log sev parts)"

definition splash_show :: "state \<Rightarrow> state" where
  "splash_show s = emit SplashShow (s\<lparr>splashVisible := True\<rparr>)"

definition splash_hide :: "state \<Rightarrow> state" where
  "splash_hide s = emit SplashHide (s\<lparr>splashVisible := False\<rparr>)"

definition splash_finish :: "state \<Rightarrow> state" where
  "splash_finish s = emit SplashFinish (s\<lparr>splashVisible := False\<rparr>)"

definition splash_showMessage :: "string \<Rightarrow> AlignmentFlag list \<Rightarrow> QColor \<Rightarrow> state \<Rightarrow> state" where
  "splash_showMessage m al c = emit (SplashMessage m al c)"

definition processEvents :: "state \<Rightarrow> state" where
  "processEvents = emit ProcessEvents"

definition QMessageBox_critical :: "string \<Rightarrow> string \<Rightarrow> state \<Rightarrow> state" where
  "QMessageBox_critical title txt = emit (MessageBoxCritical title txt)"

definition msleep :: "nat \<Rightarrow> state \<Rightarrow> state" where
  "msleep ms = emit (Msleep ms)"

definition QDir_exists :: "string \<Rightarrow> state \<Rightarrow> bool" where
  "QDir_exists path s = (path \<in> dirs s)"

definition QDir_mkpath :: "platform \<Rightarrow> string \<Rightarrow> state \<Rightarrow> bool \<times> state" where
  "QDir_mkpath p path s =
     (if mkpathOk p path then (True, emit (Mkpath path) (s\<lparr>dirs := insert path (dirs s)\<rparr>))
      else (False, emit (Mkpath path) s))"

definition QFile_exists :: "string \<Rightarrow> state \<Rightarrow> bool" where
  "QFile_exists path s = (files s path \<noteq> None)"

text \<open>\<open>QFile::copy\<close> never overwrites: with the target present it returns false.\<close>

definition QFile_copy :: "platform \<Rightarrow> string \<Rightarrow> string \<Rightarrow> state \<Rightarrow> bool \<times> state" where
  "QFile_copy p src dst s =
     (if files s dst \<noteq> None then (False, emit (Copy src dst) s)
      else case copyResult p src dst of
             None \<Rightarrow> (False, emit (Copy src dst) s)
           | Some f \<Rightarrow> (True, emit (Copy src dst) (s\<lparr>files := (files s)(dst \<mapsto> f)\<rparr>)))"

definition QFile_setPermissions :: "platform \<Rightarrow> string \<Rightarrow> Permission set \<Rightarrow> state \<Rightarrow> state" where
  "QFile_setPermissions p path perms s =
     emit (SetPermissions path perms)
       (case files s path of
          None \<Rightarrow> s
        | Some f \<Rightarrow> if setPermissionsOk p path
                    then s\<lparr>files := (files s)(path \<mapsto> f\<lparr>permissions := perms\<rparr>)\<rparr>
                    else s)"

text \<open>
  \<open>QSettings settings(path, IniFormat)\<close>: the keys of the file at \<open>path\<close> as the toolkit
  parses them (no file, no keys); \<open>value(key, default)\<close> is the stored text, or the
  default where the key is absent.
\<close>

definition QSettings_open :: "platform \<Rightarrow> string \<Rightarrow> state \<Rightarrow> (string \<rightharpoonup> string) \<times> state" where
  "QSettings_open p path s =
     ((case files s path of None \<Rightarrow> Map.empty | Some f \<Rightarrow> iniParse p (contents f)),
      emit (OpenSettings path) s)"

definition settings_value :: "(string \<rightharpoonup> string) \<Rightarrow> string \<Rightarrow> QVariant \<Rightarrow> QVariant" where
  "settings_value settings key dflt = (case settings key of None \<Rightarrow> dflt | Some v \<Rightarrow> VString v)"

definition show_bool :: "bool \<Rightarrow> string" where
  "show_bool b = (if b then ''true'' else ''false'')"

fun toString :: "QVariant \<Rightarrow> string" where
  "toString (VString v) = v"
| "toString (VBool b) = show_bool b"

fun toBool :: "platform \<Rightarrow> QVariant \<Rightarrow> bool" where
  "toBool p (VBool b) = b"
| "toBool p (VString v) = stringToBool p v"

text \<open>
  The local \<open>QTranslator tr\<close> is the resource it holds, if any; \<open>tr.load\<close> answers as the
  platform does and leaves the translator empty when it fails.
\<close>

definition QTranslator_load ::
  "platform \<Rightarrow> string \<Rightarrow> state \<Rightarrow> (string option \<times> bool) \<times> state" where
  "QTranslator_load p res s =
     (if translatorLoad p res then ((Some res, True), emit (TranslatorLoad res) s)
      else ((None, False), emit (TranslatorLoad res) s))"

definition installTranslator :: "string option \<Rightarrow> state \<Rightarrow> state" where
  "installTranslator tr s =
     (case tr of
        None \<Rightarrow> s
      | Some res \<Rightarrow> emit (InstallTranslator res) (s\<lparr>translators := res # translators s\<rparr>))"

fun setColor :: "QPalette \<Rightarrow> ColorRole \<Rightarrow> QColor \<Rightarrow> QPalette" where
  "setColor [] role c = [(role, c)]"
| "setColor ((r, c') # pal) role c =
     (if r = role then (role, c) # pal else (r, c') # setColor pal role c)"

definition color :: "QPalette \<Rightarrow> ColorRole \<Rightarrow> QColor option" where
  "color pal role = map_of pal role"

definition setPalette :: "QPalette \<Rightarrow> state \<Rightarrow> state" where
  "setPalette pal s = emit (SetPalette pal) (s\<lparr>appPalette := Some pal\<rparr>)"

definition setStyleSheet :: "string \<Rightarrow> state \<Rightarrow> state" where
  "setStyleSheet sheet s = emit (SetStyleSheet sheet) (s\<lparr>appStyleSheet := Some sheet\<rparr>)"

definition new_player :: "state \<Rightarrow> state" where
  "new_player s = emit NewPlayer (s\<lparr>window := Hidden\<rparr>)"

definition showFullScreen :: "state \<Rightarrow> state" where
  "showFullScreen s = emit ShowWindowFullScreen (s\<lparr>window := ShownFullScreen\<rparr>)"

definition show_window :: "state \<Rightarrow> state" where
  "show_window s = emit ShowWindow (s\<lparr>window := ShownNormal\<rparr>)"

section \<open>The program: \<open>main\<close>, stage by stage\<close>

datatype 'a flow = Exit int | Go 'a

record loaded =
  idioma :: string
  fullScreen :: bool
  darkMode :: bool

definition alignit :: "AlignmentFlag list" where
  "alignit = [AlignBottom, AlignHCenter]"

definition msgColor :: QColor where
  "msgColor = Qt_darkBlue"

definition configFileName :: string where
  "configFileName = ''xfb.conf''"

text \<open>Lines 19 to 55: environment, application object and identity, style, splash.\<close>

definition windowIcon :: "os_kind \<Rightarrow> string" where
  "windowIcon k = (case k of Q_OS_MAC \<Rightarrow> ''../Resources/XFB.icns'' | _ \<Rightarrow> '':/Resources/48x48.png'')"

definition startup :: "platform \<Rightarrow> state \<Rightarrow> state" where
  "startup p =
     seq [qputenv ''QT_MULTIMEDIA_PREFERRED_PLUGINS'' ''gstreamer'',
          qputenv ''QT_ACCESSIBILITY'' ''1'',
          emit (SetDesktopSettingsAware False),
          emit NewQApplication,
          emit (SetWindowIcon (windowIcon (os p))),
          emit (SetApplicationName ''XFB''),
          emit (SetOrganizationName ''Netpack - Online Solutions''),
          emit (SetStyle ''Fusion''),
          emit (NewSplash ''://images/splash.png''),
          splash_show,
          splash_showMessage ''Initializing...'' alignit msgColor,
          processEvents]"

text \<open>Lines 82 to 103: the configuration file, copied from the resources when absent.\<close>

definition config_file_path :: "string \<Rightarrow> string" where
  "config_file_path writableConfigPath = writableConfigPath @ ''/'' @ configFileName"

definition resource_config_path :: string where
  "resource_config_path = '':/'' @ configFileName"

definition provision_file :: "platform \<Rightarrow> string \<Rightarrow> state \<Rightarrow> string flow \<times> state" where
  "provision_file p writableConfigPath s =
     (if \<not> QFile_exists (config_file_path writableConfigPath) s then
        (let s1 = seq [splash_showMessage ''Setting up default configuration...'' alignit msgColor,
                       processEvents] s;
             (copied, s2) = QFile_copy p resource_config_path (config_file_path writableConfigPath) s1
         in if \<not> copied then
              (Exit 1,
               seq [qlog Critical [''Failed to copy default configuration from'',
                                   resource_config_path, ''to'', config_file_path writableConfigPath],
                    qlog Critical [''Resource exists?'',
                                   show_bool (resourceExists p resource_config_path)],
                    qlog Critical [''Check resource path and write permissions for'',
                                   writableConfigPath],
                    splash_hide,
                    QMessageBox_critical ''Configuration Error''
                      ''Could not copy default configuration file.''] s2)
            else
              (Go (config_file_path writableConfigPath),
               seq [qlog Info [''Copied default configuration to:'',
                               config_file_path writableConfigPath],
                    QFile_setPermissions p (config_file_path writableConfigPath)
                      {ReadOwner, WriteOwner, ReadGroup, ReadOther}] s2))
      else
        (Go (config_file_path writableConfigPath),
         qlog Debug [''Using existing configuration file:'',
                     config_file_path writableConfigPath] s))"

text \<open>Lines 57 to 103: the writable location, its directory, then the file.\<close>

definition config_stage :: "platform \<Rightarrow> state \<Rightarrow> string flow \<times> state" where
  "config_stage p s =
     (let writableConfigPath = writableLocation p
      in if writableConfigPath = [] then
           (Exit 1,
            seq [qlog Critical [''Could not determine writable config location!''],
                 splash_hide,
                 QMessageBox_critical ''Configuration Error''
                   ''Cannot find writable location for configuration.''] s)
         else if \<not> QDir_exists writableConfigPath s then
           (let s1 = qlog Info [''Creating configuration directory:'', writableConfigPath] s;
                (made, s2) = QDir_mkpath p writableConfigPath s1
            in if \<not> made then
                 (Exit 1,
                  seq [qlog Critical [''Failed to create configuration directory:'',
                                      writableConfigPath],
                       splash_hide,
                       QMessageBox_critical ''Configuration Error''
                         (''Could not create configuration directory:'' @ [CHR 0x0A]
                            @ writableConfigPath)] s2)
               else provision_file p writableConfigPath s2)
         else provision_file p writableConfigPath s)"

text \<open>Lines 105 to 116: the three preferences, each with its default.\<close>

definition load_settings :: "platform \<Rightarrow> string \<Rightarrow> state \<Rightarrow> loaded \<times> state" where
  "load_settings p configFilePath s =
     (let s1 = seq [splash_showMessage ''Loading settings...'' alignit msgColor, processEvents] s;
          (settings, s2) = QSettings_open p configFilePath s1;
          lang = toString (settings_value settings ''Language'' (VString ''en''));
          fs = toBool p (settings_value settings ''FullScreen'' (VBool False));
          dm = toBool p (settings_value settings ''DarkMode'' (VBool False))
      in (\<lparr>idioma = lang, fullScreen = fs, darkMode = dm\<rparr>,
          qlog Debug [''Settings Loaded - Language:'', lang, ''FullScreen:'', show_bool fs,
                      ''DarkMode:'', show_bool dm] s2))"

text \<open>
  Lines 118 to 133: which translation is loaded. The result is the local translator, the
  flag \<open>translatorLoaded\<close> and the state.
\<close>

definition translator_load :: "platform \<Rightarrow> string \<Rightarrow> state \<Rightarrow> (string option \<times> bool) \<times> state" where
  "translator_load p lang s =
     (if lang = ''pt'' then
        QTranslator_load p '':/portugues.qm''
          (seq [splash_showMessage ''Loading Portuguese GUI...'' alignit msgColor, processEvents] s)
      else if lang = ''fr'' then
        QTranslator_load p '':/frances.qm''
          (seq [splash_showMessage ''Loading French GUI...'' alignit msgColor, processEvents] s)
      else
        ((None, False),
         seq [splash_showMessage ''Loading English GUI...'' alignit msgColor, processEvents] s))"

text \<open>Lines 135 to 144: install it, or warn, or stay with English.\<close>

definition translator_setup :: "platform \<Rightarrow> string \<Rightarrow> state \<Rightarrow> state" where
  "translator_setup p lang s =
     (let ((tr, translatorLoaded), s1) = translator_load p lang s
      in if lang \<noteq> ''en'' \<and> translatorLoaded then
           seq [installTranslator tr,
                qlog Debug [''Installed translator for language:'', lang]] s1
         else if lang \<noteq> ''en'' \<and> \<not> translatorLoaded then
           seq [qlog Warning [''Failed to load translator file for language:'', lang],
                splash_showMessage ''Failed to load translation!'' alignit Qt_red,
                msleep 1500] s1
         else qlog Debug [''Using default English GUI.''] s1)"

text \<open>Lines 153 to 166 and 171 to 184: the \<open>setColor\<close> calls of each palette, in order.\<close>

definition darkColors :: "(ColorRole \<times> QColor) list" where
  "darkColors =
     [(Window, QColor 30 30 46),
      (WindowText, QColor 205 214 244),
      (Base, QColor 24 24 37),
      (AlternateBase, QColor 30 30 46),
      (ToolTipBase, QColor 205 214 244),
      (ToolTipText, QColor 30 30 46),
      (Text, QColor 205 214 244),
      (Button, QColor 49 50 68),
      (ButtonText, QColor 205 214 244),
      (BrightText, Qt_red),
      (Highlight, QColor 137 180 250),
      (HighlightedText, QColor 30 30 46)]"

definition lightColors :: "(ColorRole \<times> QColor) list" where
  "lightColors =
     [(Window, QColor 239 241 245),
      (WindowText, QColor 76 79 105),
      (Base, QColor 255 255 255),
      (AlternateBase, QColor 239 241 245),
      (ToolTipBase, QColor 76 79 105),
      (ToolTipText, QColor 255 255 255),
      (Text, QColor 76 79 105),
      (Button, QColor 230 233 239),
      (ButtonText, QColor 76 79 105),
      (BrightText, Qt_red),
      (Highlight, QColor 30 102 245),
      (HighlightedText, QColor 255 255 255)]"

definition setColors :: "(ColorRole \<times> QColor) list \<Rightarrow> QPalette" where
  "setColors calls = foldl (\<lambda>pal (role, c). setColor pal role c) [] calls"

definition darkPalette :: QPalette where
  "darkPalette = setColors darkColors"

definition lightPalette :: QPalette where
  "lightPalette = setColors lightColors"

text \<open>Lines 151 to 188: the palette and the stylesheet path, by \<open>darkMode\<close>.\<close>

definition select_theme :: "bool \<Rightarrow> QPalette \<times> string" where
  "select_theme dm =
     (if dm then (darkPalette, '':/resources/darkstylesheet.qss'')
      else (lightPalette, '':/resources/stylesheet.qss''))"

text \<open>Lines 147 to 199: apply the palette, then the stylesheet when it opens.\<close>

definition apply_theme :: "platform \<Rightarrow> bool \<Rightarrow> state \<Rightarrow> state" where
  "apply_theme p dm s =
     (let s1 = seq [splash_showMessage ''Applying theme...'' alignit msgColor, processEvents] s;
          (pal, qssFilePath) = select_theme dm;
          s2 = seq [setPalette pal,
                    qlog Debug [if dm then ''Set modern dark palette.''
                                else ''Set modern light palette.'']] s1;
          s3 = emit (OpenStyleFile qssFilePath) s2
      in case readText p qssFilePath of
           Some styleSheet \<Rightarrow>
             seq [setStyleSheet styleSheet,
                  emit (CloseStyleFile qssFilePath),
                  qlog Debug [''Applied main global stylesheet:'', qssFilePath]] s3
         | None \<Rightarrow> qlog Warning [''Could not open main stylesheet file:'', qssFilePath] s3)"

text \<open>Lines 201 to 217: the main window, shown as \<open>fullScreen\<close> says.\<close>

definition main_window :: "bool \<Rightarrow> state \<Rightarrow> state" where
  "main_window fs =
     seq [splash_showMessage ''Loading main window...'' alignit msgColor,
          processEvents,
          new_player,
          splash_showMessage ''XFB is Ready!'' alignit msgColor,
          msleep 300,
          (if fs then showFullScreen else show_window),
          splash_finish]"

text \<open>\<open>main\<close>: the exit status and the final state.\<close>

definition main :: "platform \<Rightarrow> state \<Rightarrow> int \<times> state" where
  "main p s =
     (case config_stage p (startup p s) of
        (Exit status, s1) \<Rightarrow> (status, s1)
      | (Go configFilePath, s1) \<Rightarrow>
          (let (st, s2) = load_settings p configFilePath s1;
               s3 = translator_setup p (idioma st) s2;
               s4 = apply_theme p (darkMode st) s3;
               s5 = main_window (fullScreen st) s4
           in (execResult p, emit Exec s5)))"

section \<open>Observations on a run\<close>

text \<open>Events that write the configuration file: a copy, or a change of permissions.\<close>

fun is_file_write :: "event \<Rightarrow> bool" where
  "is_file_write (Copy src dst) = True"
| "is_file_write (SetPermissions path perms) = True"
| "is_file_write e = False"

text \<open>Events of the stages after the configuration: settings, locale, theme, window.\<close>

fun later_stage :: "event \<Rightarrow> bool" where
  "later_stage (OpenSettings path) = True"
| "later_stage (TranslatorLoad res) = True"
| "later_stage (InstallTranslator res) = True"
| "later_stage (SetPalette pal) = True"
| "later_stage (OpenStyleFile path) = True"
| "later_stage (SetStyleSheet sheet) = True"
| "later_stage NewPlayer = True"
| "later_stage ShowWindowFullScreen = True"
| "later_stage ShowWindow = True"
| "later_stage SplashFinish = True"
| "later_stage Exec = True"
| "later_stage e = False"

fun is_translator_load :: "event \<Rightarrow> bool" where
  "is_translator_load (TranslatorLoad res) = True"
| "is_translator_load e = False"

text \<open>
  Reading a trace from the left with the splash's visibility at hand: is a modal error
  dialog ever opened while the splash is visible?
\<close>

fun dialog_over_splash :: "bool \<Rightarrow> event list \<Rightarrow> bool" where
  "dialog_over_splash vis [] = False"
| "dialog_over_splash vis (SplashShow # es) = dialog_over_splash True es"
| "dialog_over_splash vis (SplashHide # es) = dialog_over_splash False es"
| "dialog_over_splash vis (SplashFinish # es) = dialog_over_splash False es"
| "dialog_over_splash vis (MessageBoxCritical title txt # es) =
     (vis \<or> dialog_over_splash vis es)"
| "dialog_over_splash vis (e # es) = dialog_over_splash vis es"

text \<open>Events of the theme stage that reach the application.\<close>

fun is_theme_event :: "event \<Rightarrow> bool" where
  "is_theme_event (SetPalette pal) = True"
| "is_theme_event (OpenStyleFile path) = True"
| "is_theme_event (SetStyleSheet sheet) = True"
| "is_theme_event e = False"

text \<open>The splash's visibility after a trace, and the invariant tying it to the state.\<close>

fun splash_after :: "bool \<Rightarrow> event list \<Rightarrow> bool" where
  "splash_after vis [] = vis"
| "splash_after vis (SplashShow # es) = splash_after True es"
| "splash_after vis (SplashHide # es) = splash_after False es"
| "splash_after vis (SplashFinish # es) = splash_after False es"
| "splash_after vis (e # es) = splash_after vis es"

definition splash_consistent :: "state \<Rightarrow> bool" where
  "splash_consistent s =
     (splash_after False (trace s) = splashVisible s \<and> \<not> dialog_over_splash False (trace s))"

subsection \<open>A concrete machine, for instances\<close>

definition demo_file :: qfile where
  "demo_file = \<lparr>contents = ''Language=pt'', permissions = {ReadOwner, WriteOwner}\<rparr>"

definition demo_platform :: platform where
  "demo_platform =
     \<lparr>os = Q_OS_LINUX,
      writableLocation = ''/home/u/.config/XFB'',
      mkpathOk = (\<lambda>path. True),
      copyResult = (\<lambda>src dst. Some \<lparr>contents = [], permissions = {ReadOwner, ReadGroup, ReadOther}\<rparr>),
      setPermissionsOk = (\<lambda>path. True),
      iniParse = (\<lambda>txt. if txt = ''Language=pt'' then [''Language'' \<mapsto> ''pt''] else Map.empty),
      stringToBool = (\<lambda>v. v = ''true''),
      resourceExists = (\<lambda>res. True),
      translatorLoad = (\<lambda>res. False),
      readText = (\<lambda>path. None),
      execResult = 0\<rparr>"

definition demo_state :: state where
  "demo_state = fresh {''/home/u/.config/XFB''} [''/home/u/.config/XFB/xfb.conf'' \<mapsto> demo_file]"

section \<open>Properties\<close>

subsection \<open>Toolkit calls and stages, field by field\<close>

lemmas prim_defs = emit_def qputenv_def qlog_def splash_show_def splash_hide_def splash_finish_def
  splash_showMessage_def processEvents_def QMessageBox_critical_def msleep_def
  QDir_exists_def QDir_mkpath_def QFile_exists_def QFile_copy_def QFile_setPermissions_def
  QSettings_open_def QTranslator_load_def installTranslator_def setPalette_def setStyleSheet_def
  new_player_def showFullScreen_def show_window_def

lemmas demo_defs = demo_platform_def demo_state_def demo_file_def fresh_def
  config_file_path_def resource_config_path_def configFileName_def

lemma seq_Nil [simp]: "seq [] s = s"
  by (simp add: seq_def)

lemma seq_Cons [simp]: "seq (f # fs) s = seq fs (f s)"
  by (simp add: seq_def)

lemma qlog_fields [simp]:
  "files (qlog sev parts s) = files s" "dirs (qlog sev parts s) = dirs s"
  by (simp_all add: qlog_def emit_def)

lemma startup_trace:
  "trace (startup p s) = trace s @
     [Putenv ''QT_MULTIMEDIA_PREFERRED_PLUGINS'' ''gstreamer'', Putenv ''QT_ACCESSIBILITY'' ''1'',
      SetDesktopSettingsAware False, NewQApplication, SetWindowIcon (windowIcon (os p)),
      SetApplicationName ''XFB'', SetOrganizationName ''Netpack - Online Solutions'',
      SetStyle ''Fusion'', NewSplash ''://images/splash.png'', SplashShow,
      SplashMessage ''Initializing...'' alignit msgColor, ProcessEvents]"
  by (simp add: startup_def prim_defs)

lemma startup_fields [simp]:
  "dirs (startup p s) = dirs s" "files (startup p s) = files s"
  "translators (startup p s) = translators s" "appPalette (startup p s) = appPalette s"
  "appStyleSheet (startup p s) = appStyleSheet s" "window (startup p s) = window s"
  "splashVisible (startup p s)"
  by (simp_all add: startup_def prim_defs)

lemma provision_file_fields [simp]:
  "translators (snd (provision_file p w s)) = translators s"
  "appPalette (snd (provision_file p w s)) = appPalette s"
  "appStyleSheet (snd (provision_file p w s)) = appStyleSheet s"
  "window (snd (provision_file p w s)) = window s"
  by (simp_all add: provision_file_def prim_defs Let_def split: prod.splits option.splits)

lemma config_stage_fields [simp]:
  "translators (snd (config_stage p s)) = translators s"
  "appPalette (snd (config_stage p s)) = appPalette s"
  "appStyleSheet (snd (config_stage p s)) = appStyleSheet s"
  "window (snd (config_stage p s)) = window s"
  by (simp_all add: config_stage_def prim_defs Let_def split: prod.splits)

lemma load_settings_fields [simp]:
  "dirs (snd (load_settings p c s)) = dirs s"
  "files (snd (load_settings p c s)) = files s"
  "translators (snd (load_settings p c s)) = translators s"
  "appPalette (snd (load_settings p c s)) = appPalette s"
  "appStyleSheet (snd (load_settings p c s)) = appStyleSheet s"
  "window (snd (load_settings p c s)) = window s"
  "splashVisible (snd (load_settings p c s)) = splashVisible s"
  by (simp_all add: load_settings_def prim_defs Let_def split: prod.splits)

lemma translator_setup_fields [simp]:
  "dirs (translator_setup p l s) = dirs s"
  "files (translator_setup p l s) = files s"
  "appPalette (translator_setup p l s) = appPalette s"
  "appStyleSheet (translator_setup p l s) = appStyleSheet s"
  "window (translator_setup p l s) = window s"
  "splashVisible (translator_setup p l s) = splashVisible s"
  by (simp_all add: translator_setup_def translator_load_def prim_defs Let_def split: prod.splits option.splits)

lemma apply_theme_fields [simp]:
  "dirs (apply_theme p dm s) = dirs s"
  "files (apply_theme p dm s) = files s"
  "translators (apply_theme p dm s) = translators s"
  "window (apply_theme p dm s) = window s"
  "splashVisible (apply_theme p dm s) = splashVisible s"
  "appPalette (apply_theme p dm s) = Some (fst (select_theme dm))"
  by (simp_all add: apply_theme_def prim_defs Let_def split: prod.splits option.splits)

lemma main_window_fields [simp]:
  "dirs (main_window b s) = dirs s"
  "files (main_window b s) = files s"
  "translators (main_window b s) = translators s"
  "appPalette (main_window b s) = appPalette s"
  "appStyleSheet (main_window b s) = appStyleSheet s"
  "window (main_window b s) = (if b then ShownFullScreen else ShownNormal)"
  "\<not> splashVisible (main_window b s)"
  by (simp_all add: main_window_def prim_defs)

lemma main_Go:
  "config_stage p (startup p s) = (Go path, s1) \<Longrightarrow>
   main p s = (execResult p,
     emit Exec (main_window (fullScreen (fst (load_settings p path s1)))
       (apply_theme p (darkMode (fst (load_settings p path s1)))
         (translator_setup p (idioma (fst (load_settings p path s1)))
           (snd (load_settings p path s1))))))"
  by (simp add: main_def Let_def split: prod.splits)

lemma main_Exit:
  "config_stage p (startup p s) = (Exit c, s1) \<Longrightarrow> main p s = (c, s1)"
  by (simp add: main_def)

subsection \<open>The configuration stage\<close>

lemma provision_file_existing:
  "files s (config_file_path w) = Some f \<Longrightarrow>
   provision_file p w s =
     (Go (config_file_path w),
      qlog Debug [''Using existing configuration file:'', config_file_path w] s)"
  by (simp add: provision_file_def QFile_exists_def)

lemma QFile_copy_True:
  "QFile_copy p src dst s = (True, s1) \<Longrightarrow> files s1 dst \<noteq> None \<and> dirs s1 = dirs s"
  by (auto simp add: QFile_copy_def emit_def split: if_splits option.splits)

lemma QFile_setPermissions_keeps:
  "files s path \<noteq> None \<Longrightarrow>
   files (QFile_setPermissions p path perms s) path \<noteq> None \<and>
   dirs (QFile_setPermissions p path perms s) = dirs s"
  by (auto simp add: QFile_setPermissions_def emit_def split: if_splits option.splits)

lemma provision_file_Go:
  assumes "provision_file p w s = (Go path, s1)"
  shows "path = config_file_path w \<and> files s1 path \<noteq> None \<and> dirs s1 = dirs s"
proof (cases "QFile_exists (config_file_path w) s")
  case True
  with assms show ?thesis
    by (auto simp add: provision_file_def QFile_exists_def)
next
  case False
  obtain copied s2 where cp: "QFile_copy p resource_config_path (config_file_path w)
      (seq [splash_showMessage ''Setting up default configuration...'' alignit msgColor,
            processEvents] s) = (copied, s2)"
    by (cases "QFile_copy p resource_config_path (config_file_path w)
      (seq [splash_showMessage ''Setting up default configuration...'' alignit msgColor,
            processEvents] s)")
  with assms False have c: "copied" and p: "path = config_file_path w"
    and s1: "s1 = QFile_setPermissions p (config_file_path w)
       {ReadOwner, WriteOwner, ReadGroup, ReadOther}
       (qlog Info [''Copied default configuration to:'', config_file_path w] s2)"
    by (auto simp add: provision_file_def Let_def split: if_splits)
  from cp c QFile_copy_True have "files s2 (config_file_path w) \<noteq> None"
    and "dirs s2 = dirs s"
    by (fastforce simp add: splash_showMessage_def processEvents_def emit_def)+
  with QFile_setPermissions_keeps [of "qlog Info [''Copied default configuration to:'', config_file_path w] s2" "config_file_path w" p]
  show ?thesis
    by (simp add: p s1)
qed


lemma QDir_mkpath_True:
  "QDir_mkpath p path s = (True, s1) \<Longrightarrow> path \<in> dirs s1"
  by (auto simp add: QDir_mkpath_def emit_def split: if_splits)

lemma config_stage_Go:
  assumes "config_stage p s = (Go path, s1)"
  shows "path = config_file_path (writableLocation p) \<and> files s1 path \<noteq> None \<and>
         writableLocation p \<in> dirs s1 \<and> writableLocation p \<noteq> []"
proof (cases "QDir_exists (writableLocation p) s")
  case True
  with assms have loc: "writableLocation p \<noteq> []"
    and pf: "provision_file p (writableLocation p) s = (Go path, s1)"
    by (auto simp add: config_stage_def Let_def split: if_splits)
  from provision_file_Go [OF pf] True loc show ?thesis
    by (auto simp add: QDir_exists_def)
next
  case False
  obtain made s2 where mk: "QDir_mkpath p (writableLocation p)
      (qlog Info [''Creating configuration directory:'', writableLocation p] s) = (made, s2)"
    by (cases "QDir_mkpath p (writableLocation p)
      (qlog Info [''Creating configuration directory:'', writableLocation p] s)")
  with assms False have loc: "writableLocation p \<noteq> []" and made: "made"
    and pf: "provision_file p (writableLocation p) s2 = (Go path, s1)"
    by (auto simp add: config_stage_def Let_def split: if_splits)
  from mk made have "writableLocation p \<in> dirs s2"
    by (simp add: QDir_mkpath_True)
  with provision_file_Go [OF pf] loc show ?thesis
    by auto
qed

lemma config_stage_existing:
  "files s (config_file_path (writableLocation p)) = Some f \<Longrightarrow>
   files (snd (config_stage p s)) = files s \<and>
   filter is_file_write (trace (snd (config_stage p s))) = filter is_file_write (trace s)"
  by (simp add: config_stage_def provision_file_existing prim_defs Let_def split: prod.splits)

lemma config_stage_ready:
  "writableLocation p \<noteq> [] \<Longrightarrow> writableLocation p \<in> dirs s \<Longrightarrow>
   files s (config_file_path (writableLocation p)) = Some f \<Longrightarrow>
   fst (config_stage p s) = Go (config_file_path (writableLocation p))"
  by (simp add: config_stage_def provision_file_existing QDir_exists_def Let_def)

subsection \<open>No error dialog over a visible splash\<close>

lemma splash_after_append:
  "splash_after v (xs @ ys) = splash_after (splash_after v xs) ys"
  by (induction v xs rule: splash_after.induct) simp_all

lemma dialog_over_splash_append:
  "dialog_over_splash v (xs @ ys) =
     (dialog_over_splash v xs \<or> dialog_over_splash (splash_after v xs) ys)"
  by (induction v xs rule: dialog_over_splash.induct) simp_all

lemmas splash_simps = splash_consistent_def splash_after_append dialog_over_splash_append

lemma startup_consistent: "splash_consistent s \<Longrightarrow> splash_consistent (startup p s)"
  by (simp add: startup_def prim_defs splash_simps)

lemma qlog_consistent [simp]: "splash_consistent (qlog sev parts s) = splash_consistent s"
  by (simp add: qlog_def emit_def splash_simps)

lemma message_consistent [simp]:
  "splash_consistent (splash_showMessage m al c s) = splash_consistent s"
  "splash_consistent (processEvents s) = splash_consistent s"
  "splash_consistent (msleep n s) = splash_consistent s"
  by (simp_all add: splash_showMessage_def processEvents_def msleep_def emit_def splash_simps)

lemma QDir_mkpath_consistent [simp]:
  "splash_consistent (snd (QDir_mkpath p w s)) = splash_consistent s"
  by (simp add: QDir_mkpath_def emit_def splash_simps)

lemma QFile_copy_consistent [simp]:
  "splash_consistent (snd (QFile_copy p src dst s)) = splash_consistent s"
  by (simp add: QFile_copy_def emit_def splash_simps split: option.splits)

lemma QFile_setPermissions_consistent [simp]:
  "splash_consistent (QFile_setPermissions p path perms s) = splash_consistent s"
  by (simp add: QFile_setPermissions_def emit_def splash_simps split: option.splits)

lemma fatal_consistent:
  "splash_consistent s \<Longrightarrow> splash_consistent (QMessageBox_critical title txt (splash_hide s))"
  by (simp add: QMessageBox_critical_def splash_hide_def emit_def splash_simps)

lemma provision_file_consistent:
  "splash_consistent s \<Longrightarrow> splash_consistent (snd (provision_file p w s))"
  by (simp add: provision_file_def Let_def case_prod_beta fatal_consistent)

lemma config_stage_consistent:
  "splash_consistent s \<Longrightarrow> splash_consistent (snd (config_stage p s))"
  by (simp add: config_stage_def Let_def case_prod_beta fatal_consistent
      provision_file_consistent)

lemma settings_consistent [simp]:
  "splash_consistent (snd (QSettings_open p path s)) = splash_consistent s"
  by (simp add: QSettings_open_def emit_def splash_simps)

lemma translator_consistent [simp]:
  "splash_consistent (snd (QTranslator_load p res s)) = splash_consistent s"
  "splash_consistent (installTranslator tr s) = splash_consistent s"
  by (simp_all add: QTranslator_load_def installTranslator_def emit_def splash_simps
      split: option.splits)

lemma theme_consistent [simp]:
  "splash_consistent (setPalette pal s) = splash_consistent s"
  "splash_consistent (setStyleSheet sheet s) = splash_consistent s"
  "splash_consistent (emit (OpenStyleFile path) s) = splash_consistent s"
  "splash_consistent (emit (CloseStyleFile path) s) = splash_consistent s"
  by (simp_all add: setPalette_def setStyleSheet_def emit_def splash_simps)

lemma window_consistent [simp]:
  "splash_consistent (new_player s) = splash_consistent s"
  "splash_consistent (showFullScreen s) = splash_consistent s"
  "splash_consistent (show_window s) = splash_consistent s"
  "splash_consistent (emit Exec s) = splash_consistent s"
  by (simp_all add: new_player_def showFullScreen_def show_window_def emit_def splash_simps)

lemma splash_finish_consistent:
  "splash_consistent s \<Longrightarrow> splash_consistent (splash_finish s)"
  by (simp add: splash_finish_def emit_def splash_simps)

lemma load_settings_consistent:
  "splash_consistent s \<Longrightarrow> splash_consistent (snd (load_settings p path s))"
  by (simp add: load_settings_def Let_def case_prod_beta)

lemma translator_load_consistent:
  "splash_consistent s \<Longrightarrow> splash_consistent (snd (translator_load p lang s))"
  by (simp add: translator_load_def)

lemma translator_setup_consistent:
  "splash_consistent s \<Longrightarrow> splash_consistent (translator_setup p lang s)"
  by (simp add: translator_setup_def Let_def case_prod_beta translator_load_consistent)

lemma apply_theme_consistent:
  "splash_consistent s \<Longrightarrow> splash_consistent (apply_theme p dm s)"
  by (simp add: apply_theme_def Let_def case_prod_beta split: option.splits)

lemma main_window_consistent:
  "splash_consistent s \<Longrightarrow> splash_consistent (main_window b s)"
  by (simp add: main_window_def splash_finish_consistent)

lemma main_consistent: "splash_consistent s \<Longrightarrow> splash_consistent (snd (main p s))"
proof -
  assume inv: "splash_consistent s"
  obtain r s1 where cs: "config_stage p (startup p s) = (r, s1)"
    by (cases "config_stage p (startup p s)")
  with config_stage_consistent [OF startup_consistent [OF inv], of p p]
  have s1: "splash_consistent s1" by simp
  show ?thesis
  proof (cases r)
    case (Exit c)
    with cs s1 show ?thesis by (simp add: main_Exit)
  next
    case (Go path)
    with cs have go: "config_stage p (startup p s) = (Go path, s1)" by simp
    let ?st = "fst (load_settings p path s1)"
    have "splash_consistent (main_window (fullScreen ?st) (apply_theme p (darkMode ?st)
        (translator_setup p (idioma ?st) (snd (load_settings p path s1)))))"
      by (intro main_window_consistent apply_theme_consistent translator_setup_consistent
          load_settings_consistent s1)
    then show ?thesis
      by (simp add: main_Go [OF go])
  qed
qed

subsection \<open>Settings, locale, theme and window\<close>

lemma darkPalette_eq: "darkPalette = darkColors"
  by (simp add: darkPalette_def setColors_def darkColors_def)

lemma lightPalette_eq: "lightPalette = lightColors"
  by (simp add: lightPalette_def setColors_def lightColors_def)

lemma apply_theme_events:
  "filter is_theme_event (trace (apply_theme p dm s)) =
     filter is_theme_event (trace s) @
       [SetPalette (fst (select_theme dm)), OpenStyleFile (snd (select_theme dm))] @
       (case readText p (snd (select_theme dm)) of None \<Rightarrow> [] | Some sheet \<Rightarrow> [SetStyleSheet sheet])"
  by (simp add: apply_theme_def Let_def case_prod_beta prim_defs split: option.splits)

lemma apply_theme_missing:
  "readText p (snd (select_theme dm)) = None \<Longrightarrow>
   appStyleSheet (apply_theme p dm s) = appStyleSheet s \<and>
   last (trace (apply_theme p dm s)) =
     Log Warning [''Could not open main stylesheet file:'', snd (select_theme dm)]"
  by (simp add: apply_theme_def Let_def case_prod_beta prim_defs)

lemma apply_theme_trace:
  "\<exists>ev. trace (apply_theme p dm s) = trace s @ SplashMessage ''Applying theme...'' alignit msgColor # ev"
  by (simp add: apply_theme_def Let_def case_prod_beta prim_defs split: option.splits)

lemma main_window_trace: "\<exists>ev. trace (main_window fs s) = trace s @ ev"
  by (simp add: main_window_def prim_defs)

lemma translator_load_fails:
  assumes "lang = ''pt'' \<longrightarrow> \<not> translatorLoad p '':/portugues.qm''"
    and "lang = ''fr'' \<longrightarrow> \<not> translatorLoad p '':/frances.qm''"
  shows "fst (translator_load p lang s) = (None, False)"
    and "translators (snd (translator_load p lang s)) = translators s"
  using assms by (simp_all add: translator_load_def prim_defs)

lemma translator_load_events:
  "filter is_translator_load (trace (snd (translator_load p lang s))) =
     filter is_translator_load (trace s) @
       (if lang = ''pt'' then [TranslatorLoad '':/portugues.qm'']
        else if lang = ''fr'' then [TranslatorLoad '':/frances.qm''] else [])"
  by (simp add: translator_load_def prim_defs)

lemma translator_setup_events:
  "filter is_translator_load (trace (translator_setup p lang s)) =
     filter is_translator_load (trace (snd (translator_load p lang s)))"
  by (simp add: translator_setup_def Let_def case_prod_beta prim_defs split: option.splits)

lemma no_load_startup:
  "filter is_translator_load (trace (startup p s)) = filter is_translator_load (trace s)"
  by (simp add: startup_trace)

lemma no_load_provision:
  "filter is_translator_load (trace (snd (provision_file p w s))) =
     filter is_translator_load (trace s)"
  by (simp add: provision_file_def Let_def case_prod_beta prim_defs split: option.splits)

lemma no_load_config:
  "filter is_translator_load (trace (snd (config_stage p s))) =
     filter is_translator_load (trace s)"
  by (simp add: config_stage_def Let_def case_prod_beta no_load_provision prim_defs)

lemma no_load_settings:
  "filter is_translator_load (trace (snd (load_settings p path s))) =
     filter is_translator_load (trace s)"
  by (simp add: load_settings_def Let_def case_prod_beta prim_defs)

lemma no_load_theme:
  "filter is_translator_load (trace (apply_theme p dm s)) = filter is_translator_load (trace s)"
  by (simp add: apply_theme_def Let_def case_prod_beta prim_defs split: option.splits)

lemma no_load_window:
  "filter is_translator_load (trace (main_window fs s)) = filter is_translator_load (trace s)"
  by (simp add: main_window_def prim_defs)

subsection \<open>The concrete machine runs to the event loop\<close>

lemma demo_go:
  "config_stage demo_platform (startup demo_platform demo_state) =
     (Go ''/home/u/.config/XFB/xfb.conf'',
      snd (config_stage demo_platform (startup demo_platform demo_state)))"
proof -
  have loc: "writableLocation demo_platform \<noteq> []"
    by (simp add: demo_platform_def)
  have dir: "writableLocation demo_platform \<in> dirs (startup demo_platform demo_state)"
    by (simp add: demo_defs)
  have cfg: "files (startup demo_platform demo_state)
      (config_file_path (writableLocation demo_platform)) = Some demo_file"
    by (simp add: demo_defs)
  from config_stage_ready [OF loc dir cfg]
  have "fst (config_stage demo_platform (startup demo_platform demo_state)) =
      Go ''/home/u/.config/XFB/xfb.conf''"
    by (simp add: demo_defs)
  then show ?thesis
    by (simp add: prod_eq_iff)
qed

lemma demo_files:
  "files (snd (config_stage demo_platform (startup demo_platform demo_state))) = files demo_state"
proof -
  have cfg: "files (startup demo_platform demo_state)
      (config_file_path (writableLocation demo_platform)) = Some demo_file"
    by (simp add: demo_defs)
  from config_stage_existing [OF cfg] show ?thesis
    by simp
qed

lemma demo_loaded:
  "fst (load_settings demo_platform ''/home/u/.config/XFB/xfb.conf''
     (snd (config_stage demo_platform (startup demo_platform demo_state)))) =
   \<lparr>idioma = ''pt'', fullScreen = False, darkMode = False\<rparr>"
  by (simp add: load_settings_def Let_def case_prod_beta QSettings_open_def settings_value_def
      splash_showMessage_def processEvents_def emit_def demo_files)
    (simp add: demo_defs)

section \<open>The claims\<close>

text \<open>
  C1. A configuration file that already exists at the writable path is left as it is by
  the configuration stage: the file map is unchanged and the stage performs no copy and
  sets no permission. Hence a second run over the state a successful first run left,
  on a platform with the same writable location, succeeds again with the same path and
  changes no file.
\<close>

theorem config_stage_idempotent:
  "(files s (config_file_path (writableLocation p)) = Some f \<longrightarrow>
      files (snd (config_stage p s)) = files s \<and>
      filter is_file_write (trace (snd (config_stage p s))) = filter is_file_write (trace s)) \<and>
   (config_stage p s = (Go path, s1) \<and> writableLocation q = writableLocation p \<longrightarrow>
      fst (config_stage q s1) = Go path \<and>
      files (snd (config_stage q s1)) = files s1 \<and>
      filter is_file_write (trace (snd (config_stage q s1))) = filter is_file_write (trace s1))"
proof (intro conjI impI)
  assume ex: "files s (config_file_path (writableLocation p)) = Some f"
  from config_stage_existing [OF ex]
  show "files (snd (config_stage p s)) = files s"
    and "filter is_file_write (trace (snd (config_stage p s))) = filter is_file_write (trace s)"
    by simp_all
next
  assume run: "config_stage p s = (Go path, s1) \<and> writableLocation q = writableLocation p"
  then have first: "config_stage p s = (Go path, s1)"
    and same: "writableLocation q = writableLocation p"
    by simp_all
  from config_stage_Go [OF first] same
  obtain g where path: "path = config_file_path (writableLocation q)"
    and there: "files s1 (config_file_path (writableLocation q)) = Some g"
    and dir: "writableLocation q \<in> dirs s1" and loc: "writableLocation q \<noteq> []"
    by auto
  from config_stage_ready [OF loc dir there] path
  show "fst (config_stage q s1) = Go path" by simp
  from config_stage_existing [OF there]
  show "files (snd (config_stage q s1)) = files s1"
    and "filter is_file_write (trace (snd (config_stage q s1))) = filter is_file_write (trace s1)"
    by simp_all
qed

theorem config_stage_idempotent_witness:
  "files demo_state (config_file_path (writableLocation demo_platform)) = Some demo_file \<and>
   files (snd (config_stage demo_platform demo_state)) = files demo_state \<and>
   filter is_file_write (trace (snd (config_stage demo_platform demo_state))) =
     filter is_file_write (trace demo_state) \<and>
   fst (config_stage demo_platform (fresh {} Map.empty)) = Go ''/home/u/.config/XFB/xfb.conf'' \<and>
   files (snd (config_stage demo_platform (snd (config_stage demo_platform (fresh {} Map.empty))))) =
     files (snd (config_stage demo_platform (fresh {} Map.empty)))"
proof -
  have h1: "files demo_state (config_file_path (writableLocation demo_platform)) = Some demo_file"
    by (simp add: demo_defs)
  have h2: "fst (config_stage demo_platform (fresh {} Map.empty)) = Go ''/home/u/.config/XFB/xfb.conf''"
    by (simp add: demo_defs config_stage_def provision_file_def prim_defs Let_def)
  then have h3: "config_stage demo_platform (fresh {} Map.empty) =
      (Go ''/home/u/.config/XFB/xfb.conf'', snd (config_stage demo_platform (fresh {} Map.empty)))"
    by (simp add: prod_eq_iff)
  from config_stage_idempotent [where s = demo_state and p = demo_platform and f = demo_file] h1
  have a: "files (snd (config_stage demo_platform demo_state)) = files demo_state \<and>
     filter is_file_write (trace (snd (config_stage demo_platform demo_state))) =
       filter is_file_write (trace demo_state)"
    by blast
  from config_stage_idempotent [where s = "fresh {} Map.empty" and p = demo_platform
      and q = demo_platform and path = "''/home/u/.config/XFB/xfb.conf''"
      and ?s1.0 = "snd (config_stage demo_platform (fresh {} Map.empty))"] h3
  have b: "files (snd (config_stage demo_platform (snd (config_stage demo_platform (fresh {} Map.empty))))) =
     files (snd (config_stage demo_platform (fresh {} Map.empty)))"
    by blast
  from h1 h2 a b show ?thesis by blast
qed

text \<open>
  C2. When the configuration directory is absent and \<open>mkpath\<close> fails, \<open>main\<close>
  returns 1 right after the error dialog: the trace is that of the start-up followed by
  the five events of the failure, no event of a later stage (settings, locale, theme,
  window, event loop) occurs, and translators, palette, stylesheet, window and files
  are as they were.
\<close>

theorem mkpath_failure_fatal:
  assumes "writableLocation p \<noteq> []"
    and "\<not> QDir_exists (writableLocation p) s"
    and "\<not> mkpathOk p (writableLocation p)"
  shows "fst (main p s) = 1 \<and>
     trace (snd (main p s)) = trace (startup p s) @
       [Log Info [''Creating configuration directory:'', writableLocation p],
        Mkpath (writableLocation p),
        Log Critical [''Failed to create configuration directory:'', writableLocation p],
        SplashHide,
        MessageBoxCritical ''Configuration Error''
          (''Could not create configuration directory:'' @ [CHR 0x0A] @ writableLocation p)] \<and>
     filter later_stage (trace (snd (main p s))) = filter later_stage (trace s) \<and>
     translators (snd (main p s)) = translators s \<and>
     appPalette (snd (main p s)) = appPalette s \<and>
     appStyleSheet (snd (main p s)) = appStyleSheet s \<and>
     window (snd (main p s)) = window s \<and>
     files (snd (main p s)) = files s \<and> dirs (snd (main p s)) = dirs s"
  using assms
  by (simp add: main_def config_stage_def Let_def prim_defs startup_trace)

theorem mkpath_failure_fatal_witness:
  "writableLocation (demo_platform\<lparr>mkpathOk := \<lambda>path. False\<rparr>) \<noteq> [] \<and>
   \<not> QDir_exists (writableLocation (demo_platform\<lparr>mkpathOk := \<lambda>path. False\<rparr>))
       (fresh {} Map.empty) \<and>
   \<not> mkpathOk (demo_platform\<lparr>mkpathOk := \<lambda>path. False\<rparr>)
       (writableLocation (demo_platform\<lparr>mkpathOk := \<lambda>path. False\<rparr>)) \<and>
   fst (main (demo_platform\<lparr>mkpathOk := \<lambda>path. False\<rparr>) (fresh {} Map.empty)) = 1 \<and>
   filter later_stage
     (trace (snd (main (demo_platform\<lparr>mkpathOk := \<lambda>path. False\<rparr>) (fresh {} Map.empty)))) = [] \<and>
   window (snd (main (demo_platform\<lparr>mkpathOk := \<lambda>path. False\<rparr>) (fresh {} Map.empty))) =
     NotConstructed"
proof -
  let ?p = "demo_platform\<lparr>mkpathOk := \<lambda>path. False\<rparr>"
  have h1: "writableLocation ?p \<noteq> []"
    by (simp add: demo_platform_def)
  have h2: "\<not> QDir_exists (writableLocation ?p) (fresh {} Map.empty)"
    by (simp add: demo_platform_def QDir_exists_def fresh_def)
  have h3: "\<not> mkpathOk ?p (writableLocation ?p)"
    by simp
  note run = mkpath_failure_fatal [OF h1 h2 h3]
  from run have a: "fst (main ?p (fresh {} Map.empty)) = 1"
    by blast
  from run have "filter later_stage (trace (snd (main ?p (fresh {} Map.empty)))) =
      filter later_stage (trace (fresh {} Map.empty))"
    by blast
  then have b: "filter later_stage (trace (snd (main ?p (fresh {} Map.empty)))) = []"
    by (simp add: fresh_def)
  from run have "window (snd (main ?p (fresh {} Map.empty))) = window (fresh {} Map.empty)"
    by blast
  then have c: "window (snd (main ?p (fresh {} Map.empty))) = NotConstructed"
    by (simp add: fresh_def)
  from h1 h2 h3 a b c show ?thesis
    by blast
qed

text \<open>
  C3. When the settings of the configuration file hold none of the keys \<open>Language\<close>,
  \<open>FullScreen\<close> and \<open>DarkMode\<close> (or there is no file to read), the loaded
  preferences are exactly \<open>en\<close>, windowed, light. Loading never ends the run: once
  the configuration stage has succeeded, \<open>main\<close> constructs the window and returns
  what the event loop returns.
\<close>

theorem load_settings_defaults:
  "(fst (QSettings_open p path s) ''Language'' = None \<and>
    fst (QSettings_open p path s) ''FullScreen'' = None \<and>
    fst (QSettings_open p path s) ''DarkMode'' = None \<longrightarrow>
      fst (load_settings p path s) = \<lparr>idioma = ''en'', fullScreen = False, darkMode = False\<rparr>) \<and>
   (files s path = None \<longrightarrow>
      fst (load_settings p path s) = \<lparr>idioma = ''en'', fullScreen = False, darkMode = False\<rparr>) \<and>
   (config_stage p (startup p s) = (Go path, s1) \<longrightarrow>
      fst (main p s) = execResult p \<and> last (trace (snd (main p s))) = Exec \<and>
      window (snd (main p s)) \<noteq> NotConstructed)"
proof (intro conjI impI)
  assume "fst (QSettings_open p path s) ''Language'' = None \<and>
    fst (QSettings_open p path s) ''FullScreen'' = None \<and>
    fst (QSettings_open p path s) ''DarkMode'' = None"
  then show "fst (load_settings p path s) = \<lparr>idioma = ''en'', fullScreen = False, darkMode = False\<rparr>"
    by (simp add: load_settings_def QSettings_open_def settings_value_def Let_def
        splash_showMessage_def processEvents_def emit_def)
next
  assume "files s path = None"
  then show "fst (load_settings p path s) = \<lparr>idioma = ''en'', fullScreen = False, darkMode = False\<rparr>"
    by (simp add: load_settings_def QSettings_open_def settings_value_def Let_def
        splash_showMessage_def processEvents_def emit_def)
next
  assume go: "config_stage p (startup p s) = (Go path, s1)"
  show "fst (main p s) = execResult p"
    by (simp add: main_Go [OF go])
  show "last (trace (snd (main p s))) = Exec"
    by (simp add: main_Go [OF go] emit_def)
  show "window (snd (main p s)) \<noteq> NotConstructed"
    by (simp add: main_Go [OF go] emit_def)
qed

theorem load_settings_defaults_witness:
  "fst (QSettings_open (demo_platform\<lparr>iniParse := \<lambda>txt. Map.empty\<rparr>)
          ''/home/u/.config/XFB/xfb.conf'' demo_state) ''Language'' = None \<and>
   fst (QSettings_open (demo_platform\<lparr>iniParse := \<lambda>txt. Map.empty\<rparr>)
          ''/home/u/.config/XFB/xfb.conf'' demo_state) ''FullScreen'' = None \<and>
   fst (QSettings_open (demo_platform\<lparr>iniParse := \<lambda>txt. Map.empty\<rparr>)
          ''/home/u/.config/XFB/xfb.conf'' demo_state) ''DarkMode'' = None \<and>
   fst (load_settings (demo_platform\<lparr>iniParse := \<lambda>txt. Map.empty\<rparr>)
          ''/home/u/.config/XFB/xfb.conf'' demo_state) =
     \<lparr>idioma = ''en'', fullScreen = False, darkMode = False\<rparr> \<and>
   files (fresh {} Map.empty) ''/home/u/.config/XFB/xfb.conf'' = None \<and>
   fst (load_settings demo_platform ''/home/u/.config/XFB/xfb.conf'' (fresh {} Map.empty)) =
     \<lparr>idioma = ''en'', fullScreen = False, darkMode = False\<rparr> \<and>
   fst (main demo_platform demo_state) = 0 \<and>
   last (trace (snd (main demo_platform demo_state))) = Exec"
proof -
  let ?p = "demo_platform\<lparr>iniParse := \<lambda>txt. Map.empty\<rparr>"
  let ?path = "''/home/u/.config/XFB/xfb.conf''"
  have keys: "fst (QSettings_open ?p ?path demo_state) ''Language'' = None \<and>
      fst (QSettings_open ?p ?path demo_state) ''FullScreen'' = None \<and>
      fst (QSettings_open ?p ?path demo_state) ''DarkMode'' = None"
    by (simp add: QSettings_open_def demo_state_def fresh_def)
  from load_settings_defaults [of ?p ?path demo_state] keys
  have a: "fst (load_settings ?p ?path demo_state) =
      \<lparr>idioma = ''en'', fullScreen = False, darkMode = False\<rparr>"
    by blast
  have none: "files (fresh {} Map.empty) ?path = None"
    by (simp add: fresh_def)
  from load_settings_defaults [of demo_platform ?path "fresh {} Map.empty"] none
  have b: "fst (load_settings demo_platform ?path (fresh {} Map.empty)) =
      \<lparr>idioma = ''en'', fullScreen = False, darkMode = False\<rparr>"
    by blast
  from load_settings_defaults [where p = demo_platform and s = demo_state and path = ?path
      and ?s1.0 = "snd (config_stage demo_platform (startup demo_platform demo_state))"] demo_go
  have "fst (main demo_platform demo_state) = execResult demo_platform \<and>
      last (trace (snd (main demo_platform demo_state))) = Exec"
    by blast
  then have c: "fst (main demo_platform demo_state) = 0 \<and>
      last (trace (snd (main demo_platform demo_state))) = Exec"
    by (simp add: demo_platform_def)
  from keys a none b c show ?thesis
    by blast
qed

text \<open>
  C4. For a language other than \<open>en\<close> whose translation does not load (a failed load
  of \<open>pt\<close> or \<open>fr\<close>, or any other code, for which none is tried), the translator
  stays empty and none is installed, and the stage ends with the warning in the log, the
  red splash message and the pause of 1500 ms, the same three events for every such
  code. In a whole run these are followed at once by the theme stage, and the run goes
  on to the event loop with the installed translators unchanged.
\<close>

theorem translation_failure_warns:
  assumes other: "lang \<noteq> ''en''"
    and pt: "lang = ''pt'' \<longrightarrow> \<not> translatorLoad p '':/portugues.qm''"
    and fr: "lang = ''fr'' \<longrightarrow> \<not> translatorLoad p '':/frances.qm''"
  shows "fst (translator_load p lang s) = (None, False) \<and>
     translators (translator_setup p lang s) = translators s \<and>
     trace (translator_setup p lang s) = trace (snd (translator_load p lang s)) @
       [Log Warning [''Failed to load translator file for language:'', lang],
        SplashMessage ''Failed to load translation!'' alignit Qt_red,
        Msleep 1500] \<and>
     (config_stage p (startup p t) = (Go path, s1) \<and>
      idioma (fst (load_settings p path s1)) = lang \<longrightarrow>
        fst (main p t) = execResult p \<and>
        translators (snd (main p t)) = translators t \<and>
        (\<exists>pre post. trace (snd (main p t)) = pre @
           [Log Warning [''Failed to load translator file for language:'', lang],
            SplashMessage ''Failed to load translation!'' alignit Qt_red,
            Msleep 1500,
            SplashMessage ''Applying theme...'' alignit msgColor] @ post))"
proof -
  note fails = translator_load_fails [OF pt fr]
  have warned: "translators (translator_setup p lang s) = translators s \<and>
     trace (translator_setup p lang s) = trace (snd (translator_load p lang s)) @
       [Log Warning [''Failed to load translator file for language:'', lang],
        SplashMessage ''Failed to load translation!'' alignit Qt_red,
        Msleep 1500]" for s
    using other fails [of s]
    by (simp add: translator_setup_def Let_def case_prod_beta prim_defs)
  have whole: "fst (main p t) = execResult p \<and>
        translators (snd (main p t)) = translators t \<and>
        (\<exists>pre post. trace (snd (main p t)) = pre @
           [Log Warning [''Failed to load translator file for language:'', lang],
            SplashMessage ''Failed to load translation!'' alignit Qt_red,
            Msleep 1500,
            SplashMessage ''Applying theme...'' alignit msgColor] @ post)"
    if go: "config_stage p (startup p t) = (Go path, s1)"
      and lang: "idioma (fst (load_settings p path s1)) = lang"
  proof -
    let ?st = "fst (load_settings p path s1)"
    let ?s2 = "snd (load_settings p path s1)"
    let ?s3 = "translator_setup p lang ?s2"
    let ?s4 = "apply_theme p (darkMode ?st) ?s3"
    let ?s5 = "main_window (fullScreen ?st) ?s4"
    have m: "main p t = (execResult p, emit Exec ?s5)"
      using main_Go [OF go] lang by simp
    from go have "translators s1 = translators t"
      using config_stage_fields(1) [of p "startup p t"] by simp
    with warned [of ?s2] have tr: "translators (snd (main p t)) = translators t"
      by (simp add: m emit_def)
    obtain ev1 where e1: "trace ?s4 = trace ?s3 @ SplashMessage ''Applying theme...'' alignit msgColor # ev1"
      using apply_theme_trace by blast
    obtain ev2 where e2: "trace ?s5 = trace ?s4 @ ev2"
      using main_window_trace by blast
    have "trace (snd (main p t)) = trace (snd (translator_load p lang ?s2)) @
           [Log Warning [''Failed to load translator file for language:'', lang],
            SplashMessage ''Failed to load translation!'' alignit Qt_red,
            Msleep 1500,
            SplashMessage ''Applying theme...'' alignit msgColor] @ (ev1 @ ev2 @ [Exec])"
      using warned [of ?s2] by (simp add: m emit_def e1 e2)
    then have "\<exists>pre post. trace (snd (main p t)) = pre @
           [Log Warning [''Failed to load translator file for language:'', lang],
            SplashMessage ''Failed to load translation!'' alignit Qt_red,
            Msleep 1500,
            SplashMessage ''Applying theme...'' alignit msgColor] @ post"
      by blast
    with tr m show ?thesis by simp
  qed
  from fails(1) [of s] warned [of s] whole show ?thesis
    by blast
qed

theorem translation_failure_warns_witness:
  "''xx'' \<noteq> ''en'' \<and>
   fst (translator_load demo_platform ''xx'' demo_state) = (None, False) \<and>
   translators (translator_setup demo_platform ''xx'' demo_state) = [] \<and>
   idioma (fst (load_settings demo_platform ''/home/u/.config/XFB/xfb.conf''
     (snd (config_stage demo_platform (startup demo_platform demo_state))))) = ''pt'' \<and>
   \<not> translatorLoad demo_platform '':/portugues.qm'' \<and>
   fst (main demo_platform demo_state) = 0 \<and>
   translators (snd (main demo_platform demo_state)) = []"
proof -
  have xx: "''xx'' \<noteq> ''en''" "''xx'' = ''pt'' \<longrightarrow> \<not> translatorLoad demo_platform '':/portugues.qm''"
    "''xx'' = ''fr'' \<longrightarrow> \<not> translatorLoad demo_platform '':/frances.qm''"
    by simp_all
  note unknown = translation_failure_warns [OF xx, of demo_state]
  then have a: "fst (translator_load demo_platform ''xx'' demo_state) = (None, False)"
    by blast
  from unknown have "translators (translator_setup demo_platform ''xx'' demo_state) =
      translators demo_state"
    by blast
  then have b: "translators (translator_setup demo_platform ''xx'' demo_state) = []"
    by (simp add: demo_state_def fresh_def)
  have pt: "''pt'' \<noteq> ''en''" "''pt'' = ''pt'' \<longrightarrow> \<not> translatorLoad demo_platform '':/portugues.qm''"
    "''pt'' = ''fr'' \<longrightarrow> \<not> translatorLoad demo_platform '':/frances.qm''"
    by (simp_all add: demo_platform_def)
  have lang: "idioma (fst (load_settings demo_platform ''/home/u/.config/XFB/xfb.conf''
     (snd (config_stage demo_platform (startup demo_platform demo_state))))) = ''pt''"
    by (simp add: demo_loaded)
  from translation_failure_warns [OF pt, where t = demo_state
      and path = "''/home/u/.config/XFB/xfb.conf''"
      and ?s1.0 = "snd (config_stage demo_platform (startup demo_platform demo_state))"]
    demo_go lang
  have "fst (main demo_platform demo_state) = execResult demo_platform \<and>
      translators (snd (main demo_platform demo_state)) = translators demo_state"
    by blast
  then have c: "fst (main demo_platform demo_state) = 0 \<and>
      translators (snd (main demo_platform demo_state)) = []"
    by (simp add: demo_defs)
  from pt(2) have d: "\<not> translatorLoad demo_platform '':/portugues.qm''"
    by simp
  from xx(1) a b lang c d show ?thesis
    by blast
qed

text \<open>
  C5, with 12 entries in each table where the specification counts 10. The theme is a
  function of \<open>darkMode\<close> alone: \<open>True\<close> selects the fixed dark table and the dark
  stylesheet path, \<open>False\<close> the light table and the light stylesheet path. Both tables
  set the same 12 distinct roles; the palette applied holds every entry of the selected
  table, and it is applied whatever the platform and the state.
\<close>

theorem theme_by_darkMode:
  "select_theme True = (darkColors, '':/resources/darkstylesheet.qss'') \<and>
   select_theme False = (lightColors, '':/resources/stylesheet.qss'') \<and>
   length darkColors = 12 \<and> length lightColors = 12 \<and>
   distinct (map fst darkColors) \<and> map fst lightColors = map fst darkColors \<and>
   color (fst (select_theme True)) = map_of darkColors \<and>
   color (fst (select_theme False)) = map_of lightColors \<and>
   appPalette (apply_theme p dm s) = Some (fst (select_theme dm)) \<and>
   filter is_theme_event (trace (apply_theme p dm s)) =
     filter is_theme_event (trace s) @
       [SetPalette (fst (select_theme dm)), OpenStyleFile (snd (select_theme dm))] @
       (case readText p (snd (select_theme dm)) of None \<Rightarrow> [] | Some sheet \<Rightarrow> [SetStyleSheet sheet])"
proof (intro conjI)
  show "select_theme True = (darkColors, '':/resources/darkstylesheet.qss'')"
    by (simp add: select_theme_def darkPalette_eq)
  show "select_theme False = (lightColors, '':/resources/stylesheet.qss'')"
    by (simp add: select_theme_def lightPalette_eq)
  show "length darkColors = 12"
    by (simp add: darkColors_def)
  show "length lightColors = 12"
    by (simp add: lightColors_def)
  show "distinct (map fst darkColors)"
    by (simp add: darkColors_def)
  show "map fst lightColors = map fst darkColors"
    by (simp add: darkColors_def lightColors_def)
  show "color (fst (select_theme True)) = map_of darkColors"
    by (simp add: select_theme_def darkPalette_eq color_def fun_eq_iff)
  show "color (fst (select_theme False)) = map_of lightColors"
    by (simp add: select_theme_def lightPalette_eq color_def fun_eq_iff)
  show "appPalette (apply_theme p dm s) = Some (fst (select_theme dm))"
    by simp
  show "filter is_theme_event (trace (apply_theme p dm s)) =
     filter is_theme_event (trace s) @
       [SetPalette (fst (select_theme dm)), OpenStyleFile (snd (select_theme dm))] @
       (case readText p (snd (select_theme dm)) of None \<Rightarrow> [] | Some sheet \<Rightarrow> [SetStyleSheet sheet])"
    by (rule apply_theme_events)
qed

text \<open>The tables the code selects do not have 10 entries.\<close>

theorem theme_table_size_counterexample:
  "length (fst (select_theme True)) \<noteq> 10 \<and> length (fst (select_theme False)) \<noteq> 10"
  by (simp add: select_theme_def darkPalette_def lightPalette_def setColors_def
      darkColors_def lightColors_def)

text \<open>
  C6. When the platform has no writable configuration location (the query returns the
  empty string), \<open>main\<close> logs the failure, hides the splash, shows the blocking error
  dialog and returns 1; no event of a later stage occurs and nothing else changes.
\<close>

theorem no_location_fatal:
  assumes "writableLocation p = []"
  shows "fst (main p s) = 1 \<and>
     trace (snd (main p s)) = trace (startup p s) @
       [Log Critical [''Could not determine writable config location!''],
        SplashHide,
        MessageBoxCritical ''Configuration Error''
          ''Cannot find writable location for configuration.''] \<and>
     filter later_stage (trace (snd (main p s))) = filter later_stage (trace s) \<and>
     translators (snd (main p s)) = translators s \<and>
     appPalette (snd (main p s)) = appPalette s \<and>
     appStyleSheet (snd (main p s)) = appStyleSheet s \<and>
     window (snd (main p s)) = window s \<and>
     files (snd (main p s)) = files s \<and> dirs (snd (main p s)) = dirs s"
  using assms
  by (simp add: main_def config_stage_def Let_def prim_defs startup_trace)

theorem no_location_fatal_witness:
  "writableLocation (demo_platform\<lparr>writableLocation := []\<rparr>) = [] \<and>
   fst (main (demo_platform\<lparr>writableLocation := []\<rparr>) demo_state) = 1 \<and>
   filter later_stage (trace (snd (main (demo_platform\<lparr>writableLocation := []\<rparr>) demo_state))) = [] \<and>
   window (snd (main (demo_platform\<lparr>writableLocation := []\<rparr>) demo_state)) = NotConstructed \<and>
   last (trace (snd (main (demo_platform\<lparr>writableLocation := []\<rparr>) demo_state))) =
     MessageBoxCritical ''Configuration Error'' ''Cannot find writable location for configuration.''"
proof -
  have h: "writableLocation (demo_platform\<lparr>writableLocation := []\<rparr>) = []"
    by simp
  note run = no_location_fatal [OF h, of demo_state]
  from run have a: "fst (main (demo_platform\<lparr>writableLocation := []\<rparr>) demo_state) = 1"
    by blast
  from run have "filter later_stage (trace (snd (main (demo_platform\<lparr>writableLocation := []\<rparr>) demo_state))) =
      filter later_stage (trace demo_state)"
    by blast
  then have b: "filter later_stage (trace (snd (main (demo_platform\<lparr>writableLocation := []\<rparr>) demo_state))) = []"
    by (simp add: demo_state_def fresh_def)
  from run have "window (snd (main (demo_platform\<lparr>writableLocation := []\<rparr>) demo_state)) = window demo_state"
    by blast
  then have c: "window (snd (main (demo_platform\<lparr>writableLocation := []\<rparr>) demo_state)) = NotConstructed"
    by (simp add: demo_state_def fresh_def)
  from run have "trace (snd (main (demo_platform\<lparr>writableLocation := []\<rparr>) demo_state)) =
      trace (startup (demo_platform\<lparr>writableLocation := []\<rparr>) demo_state) @
       [Log Critical [''Could not determine writable config location!''],
        SplashHide,
        MessageBoxCritical ''Configuration Error''
          ''Cannot find writable location for configuration.'']"
    by blast
  then have d: "last (trace (snd (main (demo_platform\<lparr>writableLocation := []\<rparr>) demo_state))) =
     MessageBoxCritical ''Configuration Error'' ''Cannot find writable location for configuration.''"
    by simp
  from h a b c d show ?thesis
    by blast
qed

text \<open>
  C7. When the stylesheet of the selected theme cannot be opened, the theme stage ends
  with a warning in the log, sets no stylesheet and leaves the palette it has just
  applied; the run goes on to construct and show the window and enters the event loop.
\<close>

theorem stylesheet_missing_continues:
  assumes go: "config_stage p (startup p s) = (Go path, s1)"
    and dm: "darkMode (fst (load_settings p path s1)) = dm"
    and missing: "readText p (snd (select_theme dm)) = None"
  shows "appStyleSheet (apply_theme p dm t) = appStyleSheet t \<and>
     appPalette (apply_theme p dm t) = Some (fst (select_theme dm)) \<and>
     last (trace (apply_theme p dm t)) =
       Log Warning [''Could not open main stylesheet file:'', snd (select_theme dm)] \<and>
     fst (main p s) = execResult p \<and>
     last (trace (snd (main p s))) = Exec \<and>
     window (snd (main p s)) =
       (if fullScreen (fst (load_settings p path s1)) then ShownFullScreen else ShownNormal) \<and>
     appPalette (snd (main p s)) = Some (fst (select_theme dm)) \<and>
     appStyleSheet (snd (main p s)) = appStyleSheet s"
proof -
  from go have sheet: "appStyleSheet s1 = appStyleSheet s"
    using config_stage_fields(3) [of p "startup p s"] by simp
  from apply_theme_missing [OF missing] dm sheet show ?thesis
    by (simp add: main_Go [OF go] emit_def)
qed

theorem stylesheet_missing_continues_witness:
  "darkMode (fst (load_settings demo_platform ''/home/u/.config/XFB/xfb.conf''
     (snd (config_stage demo_platform (startup demo_platform demo_state))))) = False \<and>
   readText demo_platform (snd (select_theme False)) = None \<and>
   fst (main demo_platform demo_state) = 0 \<and>
   last (trace (snd (main demo_platform demo_state))) = Exec \<and>
   appPalette (snd (main demo_platform demo_state)) = Some (fst (select_theme False)) \<and>
   appStyleSheet (snd (main demo_platform demo_state)) = None"
proof -
  have dm: "darkMode (fst (load_settings demo_platform ''/home/u/.config/XFB/xfb.conf''
     (snd (config_stage demo_platform (startup demo_platform demo_state))))) = False"
    by (simp add: demo_loaded)
  have missing: "readText demo_platform (snd (select_theme False)) = None"
    by (simp add: demo_platform_def)
  note run = stylesheet_missing_continues [OF demo_go dm missing]
  from run have "fst (main demo_platform demo_state) = execResult demo_platform"
    by blast
  then have a: "fst (main demo_platform demo_state) = 0"
    by (simp add: demo_platform_def)
  from run have b: "last (trace (snd (main demo_platform demo_state))) = Exec"
    by blast
  from run have c: "appPalette (snd (main demo_platform demo_state)) = Some (fst (select_theme False))"
    by blast
  from run have "appStyleSheet (snd (main demo_platform demo_state)) = appStyleSheet demo_state"
    by blast
  then have d: "appStyleSheet (snd (main demo_platform demo_state)) = None"
    by (simp add: demo_state_def fresh_def)
  from dm missing a b c d show ?thesis
    by blast
qed

text \<open>
  C8. The window stage shows the window full screen when \<open>fullScreen\<close> is true and
  windowed when it is false, from any state; in a whole run that reaches it, the display
  mode is decided by the loaded \<open>FullScreen\<close> preference alone.
\<close>

theorem display_mode_by_fullScreen:
  "window (main_window fs s) = (if fs then ShownFullScreen else ShownNormal) \<and>
   (config_stage p (startup p t) = (Go path, s1) \<longrightarrow>
      window (snd (main p t)) =
        (if fullScreen (fst (load_settings p path s1)) then ShownFullScreen else ShownNormal))"
  by (simp add: main_Go emit_def)

theorem display_mode_by_fullScreen_witness:
  "fst (config_stage demo_platform (startup demo_platform demo_state)) =
     Go ''/home/u/.config/XFB/xfb.conf'' \<and>
   fullScreen (fst (load_settings demo_platform ''/home/u/.config/XFB/xfb.conf''
     (snd (config_stage demo_platform (startup demo_platform demo_state))))) = False \<and>
   window (snd (main demo_platform demo_state)) = ShownNormal"
proof -
  from display_mode_by_fullScreen [where p = demo_platform and t = demo_state
      and path = "''/home/u/.config/XFB/xfb.conf''"
      and ?s1.0 = "snd (config_stage demo_platform (startup demo_platform demo_state))"] demo_go
  have "window (snd (main demo_platform demo_state)) =
      (if fullScreen (fst (load_settings demo_platform ''/home/u/.config/XFB/xfb.conf''
         (snd (config_stage demo_platform (startup demo_platform demo_state)))))
       then ShownFullScreen else ShownNormal)"
    by blast
  then have shown: "window (snd (main demo_platform demo_state)) = ShownNormal"
    by (simp add: demo_loaded)
  have go: "fst (config_stage demo_platform (startup demo_platform demo_state)) =
      Go ''/home/u/.config/XFB/xfb.conf''"
    by (metis demo_go fst_conv)
  have windowed: "fullScreen (fst (load_settings demo_platform ''/home/u/.config/XFB/xfb.conf''
      (snd (config_stage demo_platform (startup demo_platform demo_state))))) = False"
    by (simp add: demo_loaded)
  from go windowed shown show ?thesis
    by blast
qed

text \<open>
  C9. The locale stage tries to load \<open>:/portugues.qm\<close> for \<open>pt\<close>,
  \<open>:/frances.qm\<close> for \<open>fr\<close>, and nothing for any other code, \<open>en\<close> included:
  a load is tried exactly for the codes \<open>pt\<close> and \<open>fr\<close>. In a whole run of
  \<open>main\<close> from process start these are the only loads ever tried.
\<close>

theorem translation_loads:
  "filter is_translator_load (trace (translator_setup p lang s)) =
     filter is_translator_load (trace s) @
       (if lang = ''pt'' then [TranslatorLoad '':/portugues.qm'']
        else if lang = ''fr'' then [TranslatorLoad '':/frances.qm''] else []) \<and>
   (filter is_translator_load (trace (translator_setup p lang s)) \<noteq>
      filter is_translator_load (trace s)) = (lang \<in> {''pt'', ''fr''}) \<and>
   filter is_translator_load (trace (snd (main p (fresh d f)))) =
     (case config_stage p (startup p (fresh d f)) of
        (Exit status, s1) \<Rightarrow> []
      | (Go path, s1) \<Rightarrow>
          if idioma (fst (load_settings p path s1)) = ''pt'' then [TranslatorLoad '':/portugues.qm'']
          else if idioma (fst (load_settings p path s1)) = ''fr'' then [TranslatorLoad '':/frances.qm'']
          else [])"
proof (intro conjI)
  show "filter is_translator_load (trace (translator_setup p lang s)) =
     filter is_translator_load (trace s) @
       (if lang = ''pt'' then [TranslatorLoad '':/portugues.qm'']
        else if lang = ''fr'' then [TranslatorLoad '':/frances.qm''] else [])"
    by (simp only: translator_setup_events translator_load_events)
  then show "(filter is_translator_load (trace (translator_setup p lang s)) \<noteq>
      filter is_translator_load (trace s)) = (lang \<in> {''pt'', ''fr''})"
    by simp
next
  obtain r s1 where cs: "config_stage p (startup p (fresh d f)) = (r, s1)"
    by (cases "config_stage p (startup p (fresh d f))")
  have quiet: "filter is_translator_load (trace s1) = []"
    using no_load_config [of p "startup p (fresh d f)"] cs
    by (simp add: no_load_startup fresh_def)
  show "filter is_translator_load (trace (snd (main p (fresh d f)))) =
     (case config_stage p (startup p (fresh d f)) of
        (Exit status, s1) \<Rightarrow> []
      | (Go path, s1) \<Rightarrow>
          if idioma (fst (load_settings p path s1)) = ''pt'' then [TranslatorLoad '':/portugues.qm'']
          else if idioma (fst (load_settings p path s1)) = ''fr'' then [TranslatorLoad '':/frances.qm'']
          else [])"
  proof (cases r)
    case (Exit c)
    with cs quiet show ?thesis
      by (simp add: main_Exit)
  next
    case (Go path)
    with cs have go: "config_stage p (startup p (fresh d f)) = (Go path, s1)"
      by simp
    show ?thesis
      by (simp add: go main_Go [OF go] emit_def no_load_window no_load_theme
          translator_setup_events translator_load_events no_load_settings quiet)
  qed
qed

text \<open>
  C10. In a run of \<open>main\<close> from process start no error dialog opens while the splash
  is visible. Whenever the configuration stage ends the run, the status is 1, the
  splash is hidden, and the last two events are the hiding of the splash and then the
  dialog.
\<close>

theorem dialog_after_splash_hidden:
  "\<not> dialog_over_splash False (trace (snd (main p (fresh d f)))) \<and>
   (fst (config_stage p s) = Exit c \<longrightarrow>
      c = 1 \<and> \<not> splashVisible (snd (config_stage p s)) \<and>
      last (butlast (trace (snd (config_stage p s)))) = SplashHide \<and>
      (\<exists>title txt. last (trace (snd (config_stage p s))) = MessageBoxCritical title txt))"
proof (intro conjI impI)
  have "splash_consistent (fresh d f)"
    by (simp add: fresh_def splash_consistent_def)
  from main_consistent [OF this, of p]
  show "\<not> dialog_over_splash False (trace (snd (main p (fresh d f))))"
    by (simp add: splash_consistent_def)
next
  assume ex: "fst (config_stage p s) = Exit c"
  then show "c = 1" 
    by (simp add: config_stage_def provision_file_def Let_def case_prod_beta split: if_splits)
  from ex show "\<not> splashVisible (snd (config_stage p s))"
    by (simp add: config_stage_def provision_file_def Let_def case_prod_beta
        splash_hide_def QMessageBox_critical_def emit_def split: if_splits)
  from ex show "last (butlast (trace (snd (config_stage p s)))) = SplashHide"
    by (simp add: config_stage_def provision_file_def Let_def case_prod_beta
        splash_hide_def QMessageBox_critical_def emit_def butlast_append split: if_splits)
  from ex show "\<exists>title txt. last (trace (snd (config_stage p s))) = MessageBoxCritical title txt"
    by (simp add: config_stage_def provision_file_def Let_def case_prod_beta
        splash_hide_def QMessageBox_critical_def emit_def split: if_splits)
qed

theorem dialog_after_splash_hidden_witness:
  "fst (config_stage (demo_platform\<lparr>writableLocation := []\<rparr>) (startup demo_platform demo_state)) = Exit 1 \<and>
   \<not> splashVisible (snd (config_stage (demo_platform\<lparr>writableLocation := []\<rparr>)
        (startup demo_platform demo_state))) \<and>
   last (butlast (trace (snd (config_stage (demo_platform\<lparr>writableLocation := []\<rparr>)
        (startup demo_platform demo_state))))) = SplashHide"
proof -
  have h: "fst (config_stage (demo_platform\<lparr>writableLocation := []\<rparr>)
      (startup demo_platform demo_state)) = Exit 1"
    by (simp add: config_stage_def)
  from dialog_after_splash_hidden [where p = "demo_platform\<lparr>writableLocation := []\<rparr>"
      and s = "startup demo_platform demo_state" and c = 1] h
  show ?thesis by blast
qed

end
